theory Spec2Isabelle
  imports Main "HOL-Library.Word"
begin

section \<open>The Raffle contract\<close>

text \<open>
  A shallow embedding of the Solidity contract \<^verbatim>\<open>Raffle\<close> (compiler 0.8.x, so
  arithmetic is checked: an underflow, a division by zero and an index out of range
  revert with \<^verbatim>\<open>Panic(0x11)\<close>, \<^verbatim>\<open>Panic(0x12)\<close> and \<^verbatim>\<open>Panic(0x32)\<close>).

  Every function body is a function from the contract to a result and the contract as
  it stands when the body stops, so that the writes made before a \<^verbatim>\<open>revert\<close> are
  visible in the model. A message call is the body wrapped in \<open>transact\<close>, which
  restores the contract as it was when the body reverted, as the EVM does.
\<close>

subsection \<open>Types\<close>

type_synonym uint256 = "256 word"
type_synonym uint64 = "64 word"
type_synonym uint32 = "32 word"
type_synonym uint16 = "16 word"
type_synonym bytes32 = "256 word"
type_synonym address = "160 word"

datatype RaffleState = OPEN | CALCULATING

text \<open>The conversion \<^verbatim>\<open>uint256(s_raffleState)\<close>: 0 = OPEN, 1 = CALCULATING.\<close>

fun uint256_of_RaffleState :: "RaffleState \<Rightarrow> uint256" where
  "uint256_of_RaffleState OPEN = 0"
| "uint256_of_RaffleState CALCULATING = 1"

text \<open>
  The ways a call can revert: the four custom errors of the contract (with
  \<open>UpkeepNotNeeded\<close> carrying currentBalance, numPlayers, raffleState, passedTime),
  the compiler's \<^verbatim>\<open>Panic(code)\<close>, the \<^verbatim>\<open>Error(string)\<close> of a failed
  \<^verbatim>\<open>require\<close>, and the revert of the VRF coordinator bubbling up through
  \<^verbatim>\<open>requestRandomWords\<close>.
\<close>

datatype error =
    NotEnoughETHEntered
  | TransferFailed
  | NotOpen
  | UpkeepNotNeeded uint256 uint256 uint256 uint256
  | Panic nat
  | Error string
  | CoordinatorReverted

datatype event =
    RaffleEnter address
  | RequestedRaffleWinner uint256
  | WinnerPicked address

text \<open>
  What the contract does to the outside, in order: the events it emits, the request it
  sends to the VRF coordinator (keyHash, subscriptionId, REQUEST_CONFIRMATIONS,
  callbackGasLimit, NUM_WORDS) and the value it sends to an address.
\<close>

datatype effect =
    Emit event
  | RequestRandomWords bytes32 uint64 uint16 uint32 uint32
  | CallValue address uint256

text \<open>
  The contract: its immutables (\<open>i_\<close>), its storage variables (\<open>s_\<close>), its balance
  \<^verbatim>\<open>address(this).balance\<close> and the trace of its effects. The length of
  \<open>s_players\<close> is read as a natural number: a storage array holds fewer than
  \<open>2 ^ 256\<close> elements.
\<close>

record Raffle =
  i_entranceFee :: uint256
  s_players :: "address list"
  s_recentWinner :: address
  i_vrfCoordinator :: address
  i_keyHash :: bytes32
  i_subscriptionId :: uint64
  i_callbackGasLimit :: uint32
  s_raffleState :: RaffleState
  i_interval :: uint256
  s_lastTimeStamp :: uint256
  balance :: uint256
  trace :: "effect list"

definition REQUEST_CONFIRMATIONS :: uint16 where
  "REQUEST_CONFIRMATIONS = 3"

definition NUM_WORDS :: uint32 where
  "NUM_WORDS = 1"

text \<open>
  What a call sees of the chain: the block's timestamp, the caller and the value sent,
  and the two answers of the outside the contract waits for: the request id the
  coordinator returns to \<^verbatim>\<open>requestRandomWords\<close> (\<open>None\<close> when the coordinator
  reverts) and whether a call sending a value to an address succeeds.
\<close>

record env =
  block_timestamp :: uint256
  msg_sender :: address
  msg_value :: uint256
  requestRandomWords :: "uint256 option"
  call_success :: "address \<Rightarrow> uint256 \<Rightarrow> bool"

type_synonym 'a exec = "Raffle \<Rightarrow> (error + 'a) \<times> Raffle"

subsection \<open>Reverts and checked arithmetic\<close>

text \<open>A message call: when the body reverts, nothing it wrote is kept.\<close>

definition transact :: "'a exec \<Rightarrow> 'a exec" where
  "transact body c =
     (case body c of
        (Inl err, _) \<Rightarrow> (Inl err, c)
      | (Inr v, c') \<Rightarrow> (Inr v, c'))"

text \<open>Checked subtraction on \<^verbatim>\<open>uint256\<close>: \<^verbatim>\<open>Panic(0x11)\<close> on underflow.\<close>

definition checked_sub :: "uint256 \<Rightarrow> uint256 \<Rightarrow> error + uint256" where
  "checked_sub a b = (if a < b then Inl (Panic 0x11) else Inr (a - b))"

subsection \<open>The constructor\<close>

text \<open>
  Storage starts at its default (no players, the zero address as recent winner); the
  constructor is not payable, and nothing has been emitted yet.
\<close>

definition constructor ::
  "env \<Rightarrow> address \<Rightarrow> uint256 \<Rightarrow> bytes32 \<Rightarrow> uint64 \<Rightarrow> uint32 \<Rightarrow> uint256 \<Rightarrow> Raffle" where
  "constructor e vrfCoordinatorV2 entranceFee keyHash subscriptionId callbackGasLimit interval =
     \<lparr> i_entranceFee = entranceFee,
       s_players = [],
       s_recentWinner = 0,
       i_vrfCoordinator = vrfCoordinatorV2,
       i_keyHash = keyHash,
       i_subscriptionId = subscriptionId,
       i_callbackGasLimit = callbackGasLimit,
       s_raffleState = OPEN,
       i_interval = interval,
       s_lastTimeStamp = block_timestamp e,
       balance = 0,
       trace = [] \<rparr>"

subsection \<open>enterRaffle\<close>

definition enterRaffle :: "env \<Rightarrow> unit exec" where
  "enterRaffle e c =
     (if msg_value e < i_entranceFee c then (Inl NotEnoughETHEntered, c)
      else if s_raffleState c = CALCULATING then (Inl NotOpen, c)
      else
        (Inr (),
         c\<lparr> s_players := s_players c @ [msg_sender e],
            trace := trace c @ [Emit (RaffleEnter (msg_sender e))] \<rparr>))"

text \<open>
  The function is payable: the value sent is in the balance when the body runs, and
  goes back with the revert. (On a chain the sum stays below \<open>2 ^ 256\<close>, the
  total supply being smaller, so the addition does not wrap there.) The other
  functions are not payable and are called without value.
\<close>

definition tx_enterRaffle :: "env \<Rightarrow> unit exec" where
  "tx_enterRaffle e =
     transact (\<lambda>c. enterRaffle e (c\<lparr> balance := balance c + msg_value e \<rparr>))"

subsection \<open>checkUpkeep and performUpkeep\<close>

text \<open>
  The condition is evaluated left to right and stops at the first false conjunct, so
  the subtraction is evaluated, and can underflow, only while the raffle is open.
\<close>

definition checkUpkeep :: "env \<Rightarrow> (bool \<times> string) exec" where
  "checkUpkeep e c =
     (let upkeepNeeded = False in
      if s_raffleState c = OPEN then
        (case checked_sub (block_timestamp e) (s_lastTimeStamp c) of
           Inl err \<Rightarrow> (Inl err, c)
         | Inr passedTime \<Rightarrow>
             if passedTime > i_interval c \<and> length (s_players c) > 0 \<and> balance c > 0
             then (Inr (True, ''0x0''), c)
             else (Inr (upkeepNeeded, ''0x0''), c))
      else (Inr (upkeepNeeded, ''0x0''), c))"

definition performUpkeep :: "env \<Rightarrow> unit exec" where
  "performUpkeep e c =
     (case checkUpkeep e c of
        (Inl err, c1) \<Rightarrow> (Inl err, c1)
      | (Inr (upkeepNeeded, _), c1) \<Rightarrow>
          if \<not> upkeepNeeded then
            (case checked_sub (block_timestamp e) (s_lastTimeStamp c1) of
               Inl err \<Rightarrow> (Inl err, c1)
             | Inr passedTime \<Rightarrow>
                 (Inl (UpkeepNotNeeded
                         (balance c1)
                         (of_nat (length (s_players c1)))
                         (uint256_of_RaffleState (s_raffleState c1))
                         passedTime),
                  c1))
          else
            (let c2 = c1\<lparr> s_raffleState := CALCULATING \<rparr>;
                 c3 = c2\<lparr> trace := trace c2 @
                          [RequestRandomWords (i_keyHash c2) (i_subscriptionId c2)
                             REQUEST_CONFIRMATIONS (i_callbackGasLimit c2) NUM_WORDS] \<rparr>
             in case requestRandomWords e of
                  None \<Rightarrow> (Inl CoordinatorReverted, c3)
                | Some requestId \<Rightarrow>
                    (Inr (),
                     c3\<lparr> trace := trace c3 @ [Emit (RequestedRaffleWinner requestId)] \<rparr>)))"

definition tx_performUpkeep :: "env \<Rightarrow> unit exec" where
  "tx_performUpkeep e = transact (performUpkeep e)"

subsection \<open>fulfillRandomWords\<close>

text \<open>
  The first parameter has no name in the source and is never read. The index is
  \<^verbatim>\<open>_randomWords[0] % s_players.length\<close>: reading \<^verbatim>\<open>_randomWords[0]\<close> of an empty
  array is \<^verbatim>\<open>Panic(0x32)\<close>, a zero length is \<^verbatim>\<open>Panic(0x12)\<close>. The winner is
  written to storage before the value is sent; a successful call takes the value out
  of the balance.
\<close>

definition fulfillRandomWords :: "env \<Rightarrow> uint256 \<Rightarrow> uint256 list \<Rightarrow> unit exec" where
  "fulfillRandomWords e requestId randomWords c =
     (case randomWords of
        [] \<Rightarrow> (Inl (Panic 0x32), c)
      | r # _ \<Rightarrow>
          if length (s_players c) = 0 then (Inl (Panic 0x12), c)
          else
            (let indexOfWinner = unat r mod length (s_players c) in
             if \<not> indexOfWinner < length (s_players c) then (Inl (Panic 0x32), c)
             else
               (let c1 = c\<lparr> s_recentWinner := s_players c ! indexOfWinner \<rparr>;
                    amount = balance c1;
                    callSuccess = call_success e (s_recentWinner c1) amount;
                    c2 = c1\<lparr> trace := trace c1 @ [CallValue (s_recentWinner c1) amount] \<rparr>
                in if \<not> callSuccess then (Inl TransferFailed, c2)
                   else
                     (let c3 = c2\<lparr> balance := balance c2 - amount \<rparr>;
                          c4 = c3\<lparr> s_players := [] \<rparr>;
                          c5 = c4\<lparr> s_lastTimeStamp := block_timestamp e \<rparr>;
                          c6 = c5\<lparr> s_raffleState := OPEN \<rparr>
                      in (Inr (),
                          c6\<lparr> trace := trace c6 @ [Emit (WinnerPicked (s_recentWinner c6))] \<rparr>)))))"

text \<open>
  The function is internal; it runs when the coordinator delivers the random words
  through the entry point inherited from \<^verbatim>\<open>VRFConsumerBaseV2\<close>.
\<close>

definition tx_fulfillRandomWords :: "env \<Rightarrow> uint256 \<Rightarrow> uint256 list \<Rightarrow> unit exec" where
  "tx_fulfillRandomWords e requestId randomWords =
     transact (fulfillRandomWords e requestId randomWords)"

subsection \<open>View functions\<close>

definition getPlayer :: "uint256 \<Rightarrow> address exec" where
  "getPlayer idx c =
     (if \<not> length (s_players c) > 0 then (Inl (Error ''No players participated!''), c)
      else if \<not> unat idx < length (s_players c) then (Inl (Panic 0x32), c)
      else (Inr (s_players c ! unat idx), c))"

definition getRecentWinner :: "address exec" where
  "getRecentWinner c = (Inr (s_recentWinner c), c)"

subsection \<open>Reachable contracts\<close>

text \<open>
  \<open>reachable t c\<close>: the contract \<open>c\<close> is what some sequence of message calls leaves of
  a freshly deployed contract, the last of them in a block of timestamp \<open>t\<close>. Block
  timestamps never decrease. A call that reverts leaves the contract as it was.
\<close>

inductive reachable :: "uint256 \<Rightarrow> Raffle \<Rightarrow> bool" where
  deployed:
    "reachable (block_timestamp e)
       (constructor e vrfCoordinatorV2 entranceFee keyHash subscriptionId callbackGasLimit interval)"
| entered:
    "reachable t c \<Longrightarrow> t \<le> block_timestamp e \<Longrightarrow>
     reachable (block_timestamp e) (snd (tx_enterRaffle e c))"
| triggered:
    "reachable t c \<Longrightarrow> t \<le> block_timestamp e \<Longrightarrow>
     reachable (block_timestamp e) (snd (tx_performUpkeep e c))"
| fulfilled:
    "reachable t c \<Longrightarrow> t \<le> block_timestamp e \<Longrightarrow>
     reachable (block_timestamp e) (snd (tx_fulfillRandomWords e requestId randomWords c))"

text \<open>The winners announced in a trace, oldest first.\<close>

fun winners_picked :: "effect list \<Rightarrow> address list" where
  "winners_picked [] = []"
| "winners_picked (Emit (WinnerPicked w) # tr) = w # winners_picked tr"
| "winners_picked (_ # tr) = winners_picked tr"

subsection \<open>A deployment to run the contract on\<close>

text \<open>
  The values of the local test network: an entrance fee of 100, an interval of 30
  seconds, a callback gas limit of 500000; the contract is deployed at time 1000. In
  \<open>fixture_env\<close> the coordinator answers every request with the id 1 and every
  address accepts the value sent to it.
\<close>

definition fixture_env :: "uint256 \<Rightarrow> address \<Rightarrow> uint256 \<Rightarrow> env" where
  "fixture_env t sender v =
     \<lparr> block_timestamp = t, msg_sender = sender, msg_value = v,
       requestRandomWords = Some 1, call_success = (\<lambda>_ _. True) \<rparr>"

definition fixture_raffle :: Raffle where
  "fixture_raffle = constructor (fixture_env 1000 0xD 0) 0xC0 100 0x79d3 1 500000 30"

text \<open>
  One round: the player \<open>0xA1\<close> enters with 100 at time 1010, the round is triggered
  at time 1031, and the coordinator delivers the random word 7 at time 1040.
\<close>

definition fixture_entered :: Raffle where
  "fixture_entered = snd (tx_enterRaffle (fixture_env 1010 0xA1 100) fixture_raffle)"

definition fixture_triggered :: Raffle where
  "fixture_triggered = snd (tx_performUpkeep (fixture_env 1031 0xD 0) fixture_entered)"

definition fixture_resolved :: Raffle where
  "fixture_resolved =
     snd (tx_fulfillRandomWords (fixture_env 1040 0xC0 0) 1 [7] fixture_triggered)"

section \<open>Properties\<close>

subsection \<open>Auxiliary facts\<close>

lemma transact_reverts: "fst (body c) = Inl err \<Longrightarrow> transact body c = (Inl err, c)"
  by (cases "body c") (simp add: transact_def)

lemma transact_commits: "fst (body c) = Inr v \<Longrightarrow> transact body c = body c"
  by (cases "body c") (simp add: transact_def)

lemma uint_elapsed_gt:
  fixes a b i :: uint256
  shows "b \<le> a \<and> i < a - b \<longleftrightarrow> uint i < uint a - uint b"
proof (cases "b \<le> a")
  case True
  then have "uint (a - b) = uint a - uint b"
    by (simp add: word_le_def uint_sub_lem [THEN iffD1])
  with True show ?thesis
    by (simp add: word_less_def)
next
  case False
  then have "uint a - uint b < 0"
    by (simp add: word_le_def)
  moreover have "0 \<le> uint i"
    by simp
  ultimately show ?thesis
    using False by linarith
qed

lemma checkUpkeep_keeps: "snd (checkUpkeep e c) = c"
  by (simp add: checkUpkeep_def checked_sub_def Let_def)

lemma checkUpkeep_True:
  "fst (checkUpkeep e c) = Inr (True, d) \<longleftrightarrow>
     d = ''0x0'' \<and> s_raffleState c = OPEN \<and> s_lastTimeStamp c \<le> block_timestamp e \<and>
     i_interval c < block_timestamp e - s_lastTimeStamp c \<and> s_players c \<noteq> [] \<and> balance c > 0"
  by (auto simp: checkUpkeep_def checked_sub_def Let_def not_less)

lemma word_pred_less: "x \<noteq> 0 \<Longrightarrow> x - 1 < x" for x :: uint256
  using sub_wrap [of x 1] by fastforce

lemma winners_picked_append:
  "winners_picked (tr @ tr') = winners_picked tr @ winners_picked tr'"
  by (induction tr rule: winners_picked.induct) simp_all

subsection \<open>Invariants of the reachable contracts\<close>

text \<open>The time of the last round is never after the time of the last block.\<close>

lemma reachable_lastTimeStamp: "reachable t c \<Longrightarrow> s_lastTimeStamp c \<le> t"
proof (induction rule: reachable.induct)
  case (deployed e vrfCoordinatorV2 entranceFee keyHash subscriptionId callbackGasLimit interval)
  show ?case by (simp add: constructor_def)
next
  case (entered t c e)
  then show ?case
    by (auto simp: tx_enterRaffle_def transact_def enterRaffle_def)
next
  case (triggered t c e)
  then show ?case
    by (auto simp: tx_performUpkeep_def transact_def performUpkeep_def checkUpkeep_def
        checked_sub_def Let_def split: option.splits)
next
  case (fulfilled t c e requestId randomWords)
  then show ?case
    by (auto simp: tx_fulfillRandomWords_def transact_def fulfillRandomWords_def Let_def
        split: list.splits)
qed

text \<open>While a winner is being calculated there is a player.\<close>

lemma reachable_calculating_players:
  "reachable t c \<Longrightarrow> s_raffleState c = CALCULATING \<Longrightarrow> s_players c \<noteq> []"
proof (induction rule: reachable.induct)
  case (deployed e vrfCoordinatorV2 entranceFee keyHash subscriptionId callbackGasLimit interval)
  then show ?case by (simp add: constructor_def)
next
  case (entered t c e)
  then show ?case
    by (auto simp: tx_enterRaffle_def transact_def enterRaffle_def split: if_splits)
next
  case (triggered t c e)
  then show ?case
    by (auto simp: tx_performUpkeep_def transact_def performUpkeep_def checkUpkeep_def
        checked_sub_def Let_def split: option.splits if_splits)
next
  case (fulfilled t c e requestId randomWords)
  then show ?case
    by (auto simp: tx_fulfillRandomWords_def transact_def fulfillRandomWords_def Let_def
        split: list.splits if_splits)
qed

text \<open>The recent winner is the last winner announced, the zero address before the first.\<close>

lemma reachable_recentWinner:
  "reachable t c \<Longrightarrow>
   s_recentWinner c =
     (if winners_picked (trace c) = [] then 0 else last (winners_picked (trace c)))"
proof (induction rule: reachable.induct)
  case (deployed e vrfCoordinatorV2 entranceFee keyHash subscriptionId callbackGasLimit interval)
  show ?case by (simp add: constructor_def)
next
  case (entered t c e)
  then show ?case
    by (simp add: tx_enterRaffle_def transact_def enterRaffle_def winners_picked_append)
next
  case (triggered t c e)
  then show ?case
    by (simp add: tx_performUpkeep_def transact_def performUpkeep_def checkUpkeep_def
        checked_sub_def Let_def winners_picked_append split: option.splits)
next
  case (fulfilled t c e requestId randomWords)
  then show ?case
    by (simp add: tx_fulfillRandomWords_def transact_def fulfillRandomWords_def Let_def
        winners_picked_append split: list.splits)
qed

subsection \<open>The round of the deployment\<close>

lemma fixture_entered_eq:
  "fixture_entered =
     fixture_raffle\<lparr> s_players := [0xA1], balance := 100, trace := [Emit (RaffleEnter 0xA1)] \<rparr>"
  by (simp add: fixture_entered_def tx_enterRaffle_def enterRaffle_def transact_def
      fixture_raffle_def fixture_env_def constructor_def)

lemma fixture_triggered_eq:
  "fixture_triggered =
     fixture_raffle\<lparr> s_players := [0xA1], balance := 100, s_raffleState := CALCULATING,
       trace := [Emit (RaffleEnter 0xA1), RequestRandomWords 0x79d3 1 3 500000 1,
                 Emit (RequestedRaffleWinner 1)] \<rparr>"
  by (simp add: fixture_triggered_def fixture_entered_eq tx_performUpkeep_def performUpkeep_def
      checkUpkeep_def checked_sub_def transact_def Let_def fixture_raffle_def fixture_env_def
      constructor_def REQUEST_CONFIRMATIONS_def NUM_WORDS_def)

lemma fixture_resolved_eq:
  "fixture_resolved =
     fixture_raffle\<lparr> s_players := [], s_recentWinner := 0xA1, balance := 0,
       s_lastTimeStamp := 1040,
       trace := [Emit (RaffleEnter 0xA1), RequestRandomWords 0x79d3 1 3 500000 1,
                 Emit (RequestedRaffleWinner 1), CallValue 0xA1 100,
                 Emit (WinnerPicked 0xA1)] \<rparr>"
  by (simp add: fixture_resolved_def fixture_triggered_eq tx_fulfillRandomWords_def
      fulfillRandomWords_def transact_def Let_def fixture_raffle_def fixture_env_def
      constructor_def)

lemma reachable_fixture_raffle: "reachable 1000 fixture_raffle"
  using reachable.deployed [of "fixture_env 1000 0xD 0" "0xC0" 100 "0x79d3" 1 500000 30]
  by (simp add: fixture_raffle_def fixture_env_def)

lemma reachable_fixture_entered: "reachable 1010 fixture_entered"
  using reachable.entered [OF reachable_fixture_raffle, of "fixture_env 1010 0xA1 100"]
  by (simp add: fixture_entered_def fixture_env_def)

lemma reachable_fixture_triggered: "reachable 1031 fixture_triggered"
  using reachable.triggered [OF reachable_fixture_entered, of "fixture_env 1031 0xD 0"]
  by (simp add: fixture_triggered_def fixture_env_def)

lemma reachable_fixture_resolved: "reachable 1040 fixture_resolved"
  using reachable.fulfilled [OF reachable_fixture_triggered, of "fixture_env 1040 0xC0 0" 1 "[7]"]
  by (simp add: fixture_resolved_def fixture_env_def)

subsection \<open>Resolving a round\<close>

text \<open>
  C1. For every list of players of length \<open>n > 0\<close> and every random value \<open>R\<close>
  (the first of the random words delivered), when the winner accepts the payment the
  call succeeds: the winner is the player at index \<open>R mod n\<close>, the whole balance is
  sent to the winner and the balance is 0 afterwards, \<open>s_recentWinner\<close> is the
  winner, \<open>s_players\<close> is empty, \<open>s_lastTimeStamp\<close> is the time of the block, the
  raffle is \<open>OPEN\<close>, and \<open>WinnerPicked\<close> is emitted.
\<close>

theorem fulfillRandomWords_pays_indexed_winner:
  assumes "s_players c \<noteq> []"
    and "call_success e (s_players c ! (unat R mod length (s_players c))) (balance c)"
  shows "tx_fulfillRandomWords e requestId (R # rest) c =
     (let winner = s_players c ! (unat R mod length (s_players c)) in
      (Inr (),
       c\<lparr> s_recentWinner := winner,
          s_players := [],
          s_lastTimeStamp := block_timestamp e,
          s_raffleState := OPEN,
          balance := 0,
          trace := trace c @ [CallValue winner (balance c), Emit (WinnerPicked winner)] \<rparr>))"
  using assms
  by (simp add: tx_fulfillRandomWords_def transact_def fulfillRandomWords_def Let_def)

text \<open>Four players and a pool of 400; the random value 5 picks index 1.\<close>

theorem fulfillRandomWords_pays_indexed_winner_witness:
  "tx_fulfillRandomWords (fixture_env 2000 0xC0 0) 1 [5]
     (fixture_raffle\<lparr> s_players := [0xA1, 0xA2, 0xA3, 0xA4],
        s_raffleState := CALCULATING, balance := 400 \<rparr>) =
   (Inr (),
    fixture_raffle\<lparr> s_players := [], s_recentWinner := 0xA2, s_raffleState := OPEN,
       s_lastTimeStamp := 2000, balance := 0,
       trace := [CallValue 0xA2 400, Emit (WinnerPicked 0xA2)] \<rparr>)"
  using fulfillRandomWords_pays_indexed_winner
    [of "fixture_raffle\<lparr> s_players := [0xA1, 0xA2, 0xA3, 0xA4],
           s_raffleState := CALCULATING, balance := 400 \<rparr>"
        "fixture_env 2000 0xC0 0" 5 1 "[]"]
  by (simp add: fixture_raffle_def fixture_env_def constructor_def)

subsection \<open>Readiness\<close>

text \<open>
  C2. \<open>checkUpkeep\<close> returns true exactly when the raffle is \<open>OPEN\<close>, the time since
  \<open>s_lastTimeStamp\<close> is strictly greater than the interval, there is at least one
  player and the balance is positive (the difference of the two times read as an
  integer). Whenever the block's time is not before \<open>s_lastTimeStamp\<close> it returns the
  truth value of that conjunction. The contract is the same after the call.
\<close>

theorem checkUpkeep_true_iff_ready:
  "(fst (checkUpkeep e c) = Inr (True, ''0x0'') \<longleftrightarrow>
      s_raffleState c = OPEN \<and>
      uint (block_timestamp e) - uint (s_lastTimeStamp c) > uint (i_interval c) \<and>
      length (s_players c) > 0 \<and>
      balance c > 0) \<and>
   (s_lastTimeStamp c \<le> block_timestamp e \<longrightarrow>
      fst (checkUpkeep e c) =
        Inr (s_raffleState c = OPEN \<and>
             uint (block_timestamp e) - uint (s_lastTimeStamp c) > uint (i_interval c) \<and>
             length (s_players c) > 0 \<and>
             balance c > 0, ''0x0'')) \<and>
   snd (checkUpkeep e c) = c"
proof (intro conjI impI)
  show "fst (checkUpkeep e c) = Inr (True, ''0x0'') \<longleftrightarrow>
      s_raffleState c = OPEN \<and>
      uint (block_timestamp e) - uint (s_lastTimeStamp c) > uint (i_interval c) \<and>
      length (s_players c) > 0 \<and> balance c > 0"
    using uint_elapsed_gt [of "s_lastTimeStamp c" "block_timestamp e" "i_interval c"]
    by (auto simp: checkUpkeep_True)
next
  assume le: "s_lastTimeStamp c \<le> block_timestamp e"
  then have "\<not> block_timestamp e < s_lastTimeStamp c"
    by (simp add: not_less)
  then show "fst (checkUpkeep e c) =
        Inr (s_raffleState c = OPEN \<and>
             uint (block_timestamp e) - uint (s_lastTimeStamp c) > uint (i_interval c) \<and>
             length (s_players c) > 0 \<and> balance c > 0, ''0x0'')"
    using le uint_elapsed_gt [of "s_lastTimeStamp c" "block_timestamp e" "i_interval c"]
    by (auto simp: checkUpkeep_def checked_sub_def Let_def)
next
  show "snd (checkUpkeep e c) = c"
    by (rule checkUpkeep_keeps)
qed

text \<open>One player who paid 100: ready 31 seconds after deployment, not ready after 30.\<close>

theorem checkUpkeep_true_iff_ready_witness:
  "fst (checkUpkeep (fixture_env 1031 0xD 0)
          (fixture_raffle\<lparr> s_players := [0xA1], balance := 100 \<rparr>)) = Inr (True, ''0x0'') \<and>
   fst (checkUpkeep (fixture_env 1030 0xD 0)
          (fixture_raffle\<lparr> s_players := [0xA1], balance := 100 \<rparr>)) = Inr (False, ''0x0'')"
  using checkUpkeep_true_iff_ready
      [of "fixture_env 1031 0xD 0" "fixture_raffle\<lparr> s_players := [0xA1], balance := 100 \<rparr>"]
    checkUpkeep_true_iff_ready
      [of "fixture_env 1030 0xD 0" "fixture_raffle\<lparr> s_players := [0xA1], balance := 100 \<rparr>"]
  by (simp add: fixture_raffle_def fixture_env_def constructor_def)

subsection \<open>The request id\<close>

text \<open>
  C3, as the claim states it, fails. The round of the deployment is triggered with the
  request id 1, as the event \<open>RequestedRaffleWinner\<close> in its trace says; delivering
  the random word 7 under the request id 2 succeeds all the same, pays the player and
  opens the raffle again.
\<close>

theorem fulfillRandomWords_accepts_other_requestId:
  "last (trace fixture_triggered) = Emit (RequestedRaffleWinner 1) \<and>
   s_raffleState fixture_triggered = CALCULATING \<and>
   fst (tx_fulfillRandomWords (fixture_env 1040 0xC0 0) 2 [7] fixture_triggered) = Inr () \<and>
   snd (tx_fulfillRandomWords (fixture_env 1040 0xC0 0) 2 [7] fixture_triggered) =
     fixture_resolved \<and>
   fixture_resolved \<noteq> fixture_triggered"
  by (simp add: fixture_resolved_eq fixture_triggered_eq tx_fulfillRandomWords_def
      fulfillRandomWords_def transact_def Let_def fixture_raffle_def fixture_env_def
      constructor_def)

text \<open>
  C3, amended. \<open>fulfillRandomWords\<close> never reads the request id: delivered under
  any two request ids, the same random words have the same result and leave the same
  contract. There is no failure for an unknown request in the contract.
\<close>

theorem fulfillRandomWords_ignores_requestId:
  "tx_fulfillRandomWords e requestId randomWords c =
   tx_fulfillRandomWords e requestId' randomWords c"
  by (simp add: tx_fulfillRandomWords_def transact_def fulfillRandomWords_def)

subsection \<open>A payment that fails\<close>

text \<open>
  C4. While a winner is being calculated (with a player to pay and a random word
  delivered), if the winner does not accept the payment then the call fails with
  \<open>TransferFailed\<close> and the contract is as it was: the recent winner, the players,
  the time of the last round and the balance are unchanged and the raffle is still
  \<open>CALCULATING\<close>. A later delivery whose payment is accepted succeeds.
\<close>

theorem fulfillRandomWords_failed_payment_reverts:
  assumes "s_raffleState c = CALCULATING"
    and "s_players c \<noteq> []"
    and "\<not> call_success e (s_players c ! (unat R mod length (s_players c))) (balance c)"
  shows "tx_fulfillRandomWords e requestId (R # rest) c = (Inl TransferFailed, c) \<and>
    s_recentWinner (snd (tx_fulfillRandomWords e requestId (R # rest) c)) = s_recentWinner c \<and>
    s_players (snd (tx_fulfillRandomWords e requestId (R # rest) c)) = s_players c \<and>
    s_lastTimeStamp (snd (tx_fulfillRandomWords e requestId (R # rest) c)) = s_lastTimeStamp c \<and>
    s_raffleState (snd (tx_fulfillRandomWords e requestId (R # rest) c)) = CALCULATING \<and>
    balance (snd (tx_fulfillRandomWords e requestId (R # rest) c)) = balance c \<and>
    (call_success e' (s_players c ! (unat R' mod length (s_players c))) (balance c) \<longrightarrow>
       fst (tx_fulfillRandomWords e' requestId' (R' # rest')
              (snd (tx_fulfillRandomWords e requestId (R # rest) c))) = Inr ())"
proof -
  have "fst (fulfillRandomWords e requestId (R # rest) c) = Inl TransferFailed"
    using assms by (simp add: fulfillRandomWords_def Let_def)
  then have failed: "tx_fulfillRandomWords e requestId (R # rest) c = (Inl TransferFailed, c)"
    by (simp add: tx_fulfillRandomWords_def transact_reverts)
  have "fst (tx_fulfillRandomWords e' requestId' (R' # rest') c) = Inr ()"
    if "call_success e' (s_players c ! (unat R' mod length (s_players c))) (balance c)"
    using that assms(2)
    by (simp add: tx_fulfillRandomWords_def transact_def fulfillRandomWords_def Let_def)
  with failed assms(1) show ?thesis
    by simp
qed

text \<open>
  The round of the deployment, with a winner that refuses the payment and then, on a
  second delivery, accepts it.
\<close>

theorem fulfillRandomWords_failed_payment_reverts_witness:
  "tx_fulfillRandomWords
     ((fixture_env 1040 0xC0 0)\<lparr> call_success := (\<lambda>_ _. False) \<rparr>) 1 [7] fixture_triggered =
     (Inl TransferFailed, fixture_triggered) \<and>
   fst (tx_fulfillRandomWords (fixture_env 1050 0xC0 0) 1 [7]
          (snd (tx_fulfillRandomWords
             ((fixture_env 1040 0xC0 0)\<lparr> call_success := (\<lambda>_ _. False) \<rparr>) 1 [7]
             fixture_triggered))) = Inr ()"
  using fulfillRandomWords_failed_payment_reverts
    [where c = fixture_triggered
       and e = "(fixture_env 1040 0xC0 0)\<lparr> call_success := (\<lambda>_ _. False) \<rparr>"
       and R = 7 and requestId = 1 and rest = "[]"
       and e' = "fixture_env 1050 0xC0 0" and R' = 7 and requestId' = 1 and rest' = "[]"]
  by (auto simp: fixture_triggered_eq fixture_raffle_def fixture_env_def constructor_def)

subsection \<open>Entering\<close>

text \<open>
  C5, as the claim states it, fails: the fee is checked before the state of the raffle,
  so while a winner is being calculated an entry of 99 against a fee of 100 fails with
  \<open>NotEnoughETHEntered\<close>, not with \<open>NotOpen\<close>.
\<close>

theorem enterRaffle_calculating_below_fee:
  "s_raffleState fixture_triggered = CALCULATING \<and>
   i_entranceFee fixture_triggered = 100 \<and>
   tx_enterRaffle (fixture_env 1035 0xA2 99) fixture_triggered =
     (Inl NotEnoughETHEntered, fixture_triggered) \<and>
   fst (tx_enterRaffle (fixture_env 1035 0xA2 99) fixture_triggered) \<noteq> Inl NotOpen"
  by (simp add: tx_enterRaffle_def enterRaffle_def transact_def fixture_triggered_eq
      fixture_raffle_def fixture_env_def constructor_def)

text \<open>
  C5, amended. An entry of exactly the fee succeeds while the raffle is \<open>OPEN\<close>. An
  entry of one unit less than a fee that is not zero, and any entry below the fee,
  fails with \<open>NotEnoughETHEntered\<close>, whatever the state of the raffle. While a winner
  is being calculated, an entry of the fee or more fails with \<open>NotOpen\<close>. A failed
  entry leaves the contract as it was.
\<close>

theorem enterRaffle_boundaries:
  "(s_raffleState c = OPEN \<and> msg_value e = i_entranceFee c \<longrightarrow>
      fst (tx_enterRaffle e c) = Inr ()) \<and>
   (i_entranceFee c \<noteq> 0 \<and> msg_value e = i_entranceFee c - 1 \<longrightarrow>
      tx_enterRaffle e c = (Inl NotEnoughETHEntered, c)) \<and>
   (msg_value e < i_entranceFee c \<longrightarrow>
      tx_enterRaffle e c = (Inl NotEnoughETHEntered, c)) \<and>
   (s_raffleState c = CALCULATING \<and> i_entranceFee c \<le> msg_value e \<longrightarrow>
      tx_enterRaffle e c = (Inl NotOpen, c))"
proof (intro conjI impI)
  assume "s_raffleState c = OPEN \<and> msg_value e = i_entranceFee c"
  then show "fst (tx_enterRaffle e c) = Inr ()"
    by (simp add: tx_enterRaffle_def transact_def enterRaffle_def)
next
  assume "i_entranceFee c \<noteq> 0 \<and> msg_value e = i_entranceFee c - 1"
  then have "msg_value e < i_entranceFee c"
    by (simp add: word_pred_less)
  then show "tx_enterRaffle e c = (Inl NotEnoughETHEntered, c)"
    by (simp add: tx_enterRaffle_def transact_def enterRaffle_def)
next
  assume "msg_value e < i_entranceFee c"
  then show "tx_enterRaffle e c = (Inl NotEnoughETHEntered, c)"
    by (simp add: tx_enterRaffle_def transact_def enterRaffle_def)
next
  assume "s_raffleState c = CALCULATING \<and> i_entranceFee c \<le> msg_value e"
  then show "tx_enterRaffle e c = (Inl NotOpen, c)"
    by (simp add: tx_enterRaffle_def transact_def enterRaffle_def not_less)
qed

text \<open>Against the fee of 100: 100 enters, 99 does not, 100 during the calculation does not.\<close>

theorem enterRaffle_boundaries_witness:
  "fst (tx_enterRaffle (fixture_env 1010 0xA1 100) fixture_raffle) = Inr () \<and>
   tx_enterRaffle (fixture_env 1010 0xA1 99) fixture_raffle =
     (Inl NotEnoughETHEntered, fixture_raffle) \<and>
   tx_enterRaffle (fixture_env 1035 0xA2 100) fixture_triggered =
     (Inl NotOpen, fixture_triggered)"
  using enterRaffle_boundaries [of fixture_raffle "fixture_env 1010 0xA1 100"]
    enterRaffle_boundaries [of fixture_raffle "fixture_env 1010 0xA1 99"]
    enterRaffle_boundaries [of fixture_triggered "fixture_env 1035 0xA2 100"]
  by (simp add: fixture_triggered_eq fixture_raffle_def fixture_env_def constructor_def)

text \<open>
  C10. A successful entry appends the sender, once, at the end of the players; the
  state of the raffle, the recent winner, the time of the last round and the immutables
  are unchanged. (The balance grows by the value sent and \<open>RaffleEnter\<close> is emitted.)
\<close>

theorem enterRaffle_appends_sender:
  assumes "fst (tx_enterRaffle e c) = Inr ()"
  shows "(let c' = snd (tx_enterRaffle e c) in
    s_players c' = s_players c @ [msg_sender e] \<and>
    s_raffleState c' = s_raffleState c \<and>
    s_recentWinner c' = s_recentWinner c \<and>
    s_lastTimeStamp c' = s_lastTimeStamp c \<and>
    i_entranceFee c' = i_entranceFee c \<and>
    i_vrfCoordinator c' = i_vrfCoordinator c \<and>
    i_keyHash c' = i_keyHash c \<and>
    i_subscriptionId c' = i_subscriptionId c \<and>
    i_callbackGasLimit c' = i_callbackGasLimit c \<and>
    i_interval c' = i_interval c \<and>
    balance c' = balance c + msg_value e \<and>
    trace c' = trace c @ [Emit (RaffleEnter (msg_sender e))])"
  using assms
  by (simp add: tx_enterRaffle_def transact_def enterRaffle_def Let_def split: if_splits)

text \<open>A second player enters after the first.\<close>

theorem enterRaffle_appends_sender_witness:
  "fst (tx_enterRaffle (fixture_env 1020 0xA2 100) fixture_entered) = Inr () \<and>
   s_players (snd (tx_enterRaffle (fixture_env 1020 0xA2 100) fixture_entered)) = [0xA1, 0xA2] \<and>
   s_raffleState (snd (tx_enterRaffle (fixture_env 1020 0xA2 100) fixture_entered)) = OPEN \<and>
   balance (snd (tx_enterRaffle (fixture_env 1020 0xA2 100) fixture_entered)) = 200"
proof -
  have ok: "fst (tx_enterRaffle (fixture_env 1020 0xA2 100) fixture_entered) = Inr ()"
    by (simp add: tx_enterRaffle_def transact_def enterRaffle_def fixture_entered_eq
        fixture_raffle_def fixture_env_def constructor_def)
  show ?thesis
    using ok enterRaffle_appends_sender [OF ok]
    by (simp add: Let_def fixture_entered_eq fixture_raffle_def fixture_env_def constructor_def)
qed

subsection \<open>Triggering a round\<close>

text \<open>
  C6. When the time of the block is not before \<open>s_lastTimeStamp\<close> (as it is in every
  reachable contract, see \<open>reachable_lastTimeStamp\<close>) and \<open>checkUpkeep\<close> returns
  false, \<open>performUpkeep\<close> fails with \<open>UpkeepNotNeeded\<close> carrying the balance, the
  number of players, the state of the raffle and the time passed since the last round;
  the body stops with the contract as it was, so nothing was requested from the
  coordinator, and so does the call. With no player, or while a winner is being
  calculated, \<open>checkUpkeep\<close> does return false.
\<close>

theorem performUpkeep_not_needed:
  assumes "s_lastTimeStamp c \<le> block_timestamp e"
  shows "(fst (checkUpkeep e c) = Inr (False, ''0x0'') \<longrightarrow>
      performUpkeep e c =
        (Inl (UpkeepNotNeeded (balance c) (of_nat (length (s_players c)))
                (uint256_of_RaffleState (s_raffleState c))
                (block_timestamp e - s_lastTimeStamp c)), c) \<and>
      tx_performUpkeep e c =
        (Inl (UpkeepNotNeeded (balance c) (of_nat (length (s_players c)))
                (uint256_of_RaffleState (s_raffleState c))
                (block_timestamp e - s_lastTimeStamp c)), c) \<and>
      trace (snd (performUpkeep e c)) = trace c) \<and>
    (s_players c = [] \<or> s_raffleState c = CALCULATING \<longrightarrow>
       fst (checkUpkeep e c) = Inr (False, ''0x0''))"
proof (intro conjI impI)
  from assms have nlt: "\<not> block_timestamp e < s_lastTimeStamp c"
    by (simp add: not_less)
  {
    assume "fst (checkUpkeep e c) = Inr (False, ''0x0'')"
    then have "checkUpkeep e c = (Inr (False, ''0x0''), c)"
      using checkUpkeep_keeps [of e c] by (cases "checkUpkeep e c") simp
    with nlt show body: "performUpkeep e c =
        (Inl (UpkeepNotNeeded (balance c) (of_nat (length (s_players c)))
                (uint256_of_RaffleState (s_raffleState c))
                (block_timestamp e - s_lastTimeStamp c)), c)"
      by (simp add: performUpkeep_def checked_sub_def)
    then show "tx_performUpkeep e c =
        (Inl (UpkeepNotNeeded (balance c) (of_nat (length (s_players c)))
                (uint256_of_RaffleState (s_raffleState c))
                (block_timestamp e - s_lastTimeStamp c)), c)"
      by (simp add: tx_performUpkeep_def transact_reverts)
    from body show "trace (snd (performUpkeep e c)) = trace c"
      by simp
  }
  {
    assume "s_players c = [] \<or> s_raffleState c = CALCULATING"
    with nlt show "fst (checkUpkeep e c) = Inr (False, ''0x0'')"
      by (auto simp: checkUpkeep_def checked_sub_def Let_def)
  }
qed

text \<open>
  Thirty-one seconds after deployment with no player, and four seconds after the round
  of the deployment was triggered.
\<close>

theorem performUpkeep_not_needed_witness:
  "tx_performUpkeep (fixture_env 1031 0xD 0) fixture_raffle =
     (Inl (UpkeepNotNeeded 0 0 0 31), fixture_raffle) \<and>
   tx_performUpkeep (fixture_env 1035 0xD 0) fixture_triggered =
     (Inl (UpkeepNotNeeded 100 1 1 35), fixture_triggered)"
  using performUpkeep_not_needed [of fixture_raffle "fixture_env 1031 0xD 0"]
    performUpkeep_not_needed [of fixture_triggered "fixture_env 1035 0xD 0"]
  by (simp add: fixture_triggered_eq fixture_raffle_def fixture_env_def constructor_def)

subsection \<open>Players while a winner is calculated\<close>

text \<open>
  C7. In every contract reachable from deployment by calls of \<open>enterRaffle\<close>,
  \<open>performUpkeep\<close> and \<open>fulfillRandomWords\<close>, if a winner is being calculated
  then there is at least one player, so that the computation of the winner's index
  never divides by zero (\<^verbatim>\<open>Panic(0x12)\<close>), whatever is delivered.
\<close>

theorem calculating_has_players:
  assumes "reachable t c" and "s_raffleState c = CALCULATING"
  shows "s_players c \<noteq> [] \<and>
    fst (fulfillRandomWords e requestId randomWords c) \<noteq> Inl (Panic 0x12) \<and>
    fst (tx_fulfillRandomWords e requestId randomWords c) \<noteq> Inl (Panic 0x12)"
proof -
  have players: "s_players c \<noteq> []"
    using assms by (rule reachable_calculating_players)
  then have body: "fst (fulfillRandomWords e requestId randomWords c) \<noteq> Inl (Panic 0x12)"
    by (simp add: fulfillRandomWords_def Let_def split: list.splits)
  then have "fst (tx_fulfillRandomWords e requestId randomWords c) \<noteq> Inl (Panic 0x12)"
    by (cases "fulfillRandomWords e requestId randomWords c")
      (auto simp: tx_fulfillRandomWords_def transact_def split: sum.splits)
  with players body show ?thesis
    by simp
qed

text \<open>The round of the deployment, once triggered.\<close>

theorem calculating_has_players_witness:
  "reachable 1031 fixture_triggered \<and>
   s_raffleState fixture_triggered = CALCULATING \<and>
   s_players fixture_triggered = [0xA1] \<and>
   fst (tx_fulfillRandomWords (fixture_env 1040 0xC0 0) 1 [7] fixture_triggered) \<noteq>
     Inl (Panic 0x12)"
proof -
  have st: "s_raffleState fixture_triggered = CALCULATING"
    by (simp add: fixture_triggered_eq)
  have pl: "s_players fixture_triggered = [0xA1]"
    by (simp add: fixture_triggered_eq)
  show ?thesis
    using reachable_fixture_triggered st pl
      calculating_has_players [OF reachable_fixture_triggered st,
        of "fixture_env 1040 0xC0 0" 1 "[7]"]
    by simp
qed

subsection \<open>The player at an index\<close>

text \<open>
  C8. \<open>getPlayer\<close> fails when there is no player (the \<^verbatim>\<open>require\<close> and its
  message) and when the index is not below the number of players (the array's bounds
  check, \<^verbatim>\<open>Panic(0x32)\<close>); otherwise it returns the player at the index. The
  contract is the same after the call.
\<close>

theorem getPlayer_out_of_range:
  "(s_players c = [] \<longrightarrow>
      fst (getPlayer idx c) = Inl (Error ''No players participated!'')) \<and>
   (s_players c \<noteq> [] \<and> length (s_players c) \<le> unat idx \<longrightarrow>
      fst (getPlayer idx c) = Inl (Panic 0x32)) \<and>
   (unat idx < length (s_players c) \<longrightarrow>
      fst (getPlayer idx c) = Inr (s_players c ! unat idx)) \<and>
   snd (getPlayer idx c) = c"
  by (auto simp: getPlayer_def)

text \<open>No player; then two players and the indices 2 and 1.\<close>

theorem getPlayer_out_of_range_witness:
  "fst (getPlayer 0 fixture_raffle) = Inl (Error ''No players participated!'') \<and>
   fst (getPlayer 2 (fixture_raffle\<lparr> s_players := [0xA1, 0xA2] \<rparr>)) = Inl (Panic 0x32) \<and>
   fst (getPlayer 1 (fixture_raffle\<lparr> s_players := [0xA1, 0xA2] \<rparr>)) = Inr 0xA2"
  using getPlayer_out_of_range [of fixture_raffle 0]
    getPlayer_out_of_range [of "fixture_raffle\<lparr> s_players := [0xA1, 0xA2] \<rparr>" 2]
    getPlayer_out_of_range [of "fixture_raffle\<lparr> s_players := [0xA1, 0xA2] \<rparr>" 1]
  by (simp add: fixture_raffle_def constructor_def)

subsection \<open>The recent winner\<close>

text \<open>
  C9. In every reachable contract \<open>getRecentWinner\<close> returns, without failing and
  without changing the contract, the zero address as long as no winner has been
  announced and the last winner announced afterwards. \<open>enterRaffle\<close>,
  \<open>performUpkeep\<close> and a delivery that fails leave the recent winner as it is; a
  delivery that succeeds sets it to the player it picked.
\<close>

theorem recentWinner_is_latest_winner:
  assumes "reachable t c"
  shows "getRecentWinner c =
      (Inr (if winners_picked (trace c) = [] then 0 else last (winners_picked (trace c))), c) \<and>
    s_recentWinner (snd (tx_enterRaffle e c)) = s_recentWinner c \<and>
    s_recentWinner (snd (tx_performUpkeep e c)) = s_recentWinner c \<and>
    (fst (tx_fulfillRandomWords e requestId randomWords c) \<noteq> Inr () \<longrightarrow>
       s_recentWinner (snd (tx_fulfillRandomWords e requestId randomWords c)) = s_recentWinner c) \<and>
    (fst (tx_fulfillRandomWords e requestId (R # rest) c) = Inr () \<longrightarrow>
       s_recentWinner (snd (tx_fulfillRandomWords e requestId (R # rest) c)) =
         s_players c ! (unat R mod length (s_players c)))"
proof (intro conjI impI)
  show "getRecentWinner c =
      (Inr (if winners_picked (trace c) = [] then 0 else last (winners_picked (trace c))), c)"
    using reachable_recentWinner [OF assms] by (simp add: getRecentWinner_def)
next
  show "s_recentWinner (snd (tx_enterRaffle e c)) = s_recentWinner c"
    by (simp add: tx_enterRaffle_def transact_def enterRaffle_def)
next
  show "s_recentWinner (snd (tx_performUpkeep e c)) = s_recentWinner c"
    by (simp add: tx_performUpkeep_def transact_def performUpkeep_def checkUpkeep_def
        checked_sub_def Let_def split: option.splits)
next
  assume "fst (tx_fulfillRandomWords e requestId randomWords c) \<noteq> Inr ()"
  then show "s_recentWinner (snd (tx_fulfillRandomWords e requestId randomWords c)) =
      s_recentWinner c"
    by (cases "fulfillRandomWords e requestId randomWords c")
      (auto simp: tx_fulfillRandomWords_def transact_def split: sum.splits)
next
  assume "fst (tx_fulfillRandomWords e requestId (R # rest) c) = Inr ()"
  then show "s_recentWinner (snd (tx_fulfillRandomWords e requestId (R # rest) c)) =
      s_players c ! (unat R mod length (s_players c))"
    by (simp add: tx_fulfillRandomWords_def transact_def fulfillRandomWords_def Let_def
        split: if_splits)
qed

text \<open>
  The round of the deployment: the zero address at deployment and while the round is
  open and calculated, the player \<open>0xA1\<close> once it is resolved and throughout the next
  round; a delivery with no random word fails and changes nothing.
\<close>

theorem recentWinner_is_latest_winner_witness:
  "getRecentWinner fixture_raffle = (Inr 0, fixture_raffle) \<and>
   getRecentWinner fixture_triggered = (Inr 0, fixture_triggered) \<and>
   s_recentWinner (snd (tx_fulfillRandomWords (fixture_env 1040 0xC0 0) 1 [] fixture_triggered)) = 0 \<and>
   getRecentWinner fixture_resolved = (Inr 0xA1, fixture_resolved) \<and>
   s_recentWinner (snd (tx_enterRaffle (fixture_env 1050 0xA2 100) fixture_resolved)) = 0xA1 \<and>
   s_recentWinner (snd (tx_performUpkeep (fixture_env 1090 0xD 0)
      (snd (tx_enterRaffle (fixture_env 1050 0xA2 100) fixture_resolved)))) = 0xA1"
proof -
  have next_round: "reachable 1050 (snd (tx_enterRaffle (fixture_env 1050 0xA2 100) fixture_resolved))"
    using reachable.entered [OF reachable_fixture_resolved, of "fixture_env 1050 0xA2 100"]
    by (simp add: fixture_env_def)
  have failed: "fst (tx_fulfillRandomWords (fixture_env 1040 0xC0 0) 1 [] fixture_triggered) \<noteq> Inr ()"
    by (simp add: tx_fulfillRandomWords_def fulfillRandomWords_def transact_def)
  have resolved: "fst (tx_fulfillRandomWords (fixture_env 1040 0xC0 0) 1 [7] fixture_triggered) = Inr ()"
    by (simp add: tx_fulfillRandomWords_def fulfillRandomWords_def transact_def Let_def
        fixture_triggered_eq fixture_raffle_def fixture_env_def constructor_def)
  show ?thesis
    using failed resolved
      recentWinner_is_latest_winner [OF reachable_fixture_raffle]
      recentWinner_is_latest_winner [OF reachable_fixture_triggered,
        where e = "fixture_env 1040 0xC0 0" and requestId = 1 and randomWords = "[]"
          and R = 7 and rest = "[]"]
      recentWinner_is_latest_winner [OF reachable_fixture_resolved,
        where e = "fixture_env 1050 0xA2 100"]
      recentWinner_is_latest_winner [OF next_round, where e = "fixture_env 1090 0xD 0"]
    by (simp add: fixture_resolved_eq fixture_triggered_eq fixture_raffle_def constructor_def)
qed

end
